theory Spec2Isabelle
  imports Main "HOL-Library.Word"
begin

section \<open>Library types: strings, JSON values and files\<close>

text \<open>
  A \<^verbatim>\<open>gchar *\<close> that may be NULL is a \<open>string option\<close>; a string is its bytes
  before the terminating NUL. JSON nodes of json-glib are the datatype \<open>json\<close>; an
  object keeps its members in insertion order, as json-glib does, so it is an
  association list.
\<close>

datatype json =
    JNull
  | JBool bool
  | JNumber int
  | JString string
  | JArray "json list"
  | JObject "(string \<times> json) list"

text \<open>
  What \<^verbatim>\<open>json_parser_load_from_file\<close> finds at a path: the call fails (file
  missing, unreadable or not JSON), or it succeeds with a root node, which is NULL
  for an empty document.
\<close>

datatype config_file = Unreadable | Parsed "json option"

definition M_CONFIG_DEFAULT_MODEL :: string where
  "M_CONFIG_DEFAULT_MODEL = ''gpt-4o''"

text \<open>
  \<^verbatim>\<open>g_strsplit (string, delimiter, -1)\<close> for a one-character delimiter, which is
  what both call sites pass: the pieces between the delimiters, empty pieces
  included, and the remainder after the last delimiter; the empty string gives the
  empty vector.
\<close>

fun g_strsplit_from :: "char \<Rightarrow> string \<Rightarrow> string \<Rightarrow> string list" where
  "g_strsplit_from d tok [] = [tok]"
| "g_strsplit_from d tok (c # cs) =
     (if c = d then tok # g_strsplit_from d [] cs else g_strsplit_from d (tok @ [c]) cs)"

definition g_strsplit :: "string \<Rightarrow> char \<Rightarrow> string list" where
  "g_strsplit s d = (if s = [] then [] else g_strsplit_from d [] s)"

definition json_object_get_members :: "(string \<times> json) list \<Rightarrow> string list" where
  "json_object_get_members obj = map fst obj"

definition json_object_has_member :: "(string \<times> json) list \<Rightarrow> string \<Rightarrow> bool" where
  "json_object_has_member obj k = (k \<in> set (json_object_get_members obj))"

definition json_object_get_member :: "(string \<times> json) list \<Rightarrow> string \<Rightarrow> json option" where
  "json_object_get_member obj k = map_of obj k"

text \<open>
  \<^verbatim>\<open>json_object_get_string_member\<close> gives NULL for a missing member and for a
  member that does not hold a string.
\<close>

definition json_object_get_string_member :: "(string \<times> json) list \<Rightarrow> string \<Rightarrow> string option" where
  "json_object_get_string_member obj k =
     (case json_object_get_member obj k of Some (JString s) \<Rightarrow> Some s | _ \<Rightarrow> None)"

definition json_object_remove_member :: "(string \<times> json) list \<Rightarrow> string \<Rightarrow> (string \<times> json) list" where
  "json_object_remove_member obj k = filter (\<lambda>kv. fst kv \<noteq> k) obj"

text \<open>
  \<^verbatim>\<open>json_object_set_string_member\<close>: a member that exists keeps its place and
  gets the new value, a new member goes to the end.
\<close>

definition json_object_set_string_member ::
  "(string \<times> json) list \<Rightarrow> string \<Rightarrow> string \<Rightarrow> (string \<times> json) list" where
  "json_object_set_string_member obj k v =
     (if json_object_has_member obj k
      then map (\<lambda>kv. if fst kv = k then (k, JString v) else kv) obj
      else obj @ [(k, JString v)])"

section \<open>m-config.c\<close>

subsection \<open>Prompts\<close>

definition m_config_load_prompts :: "config_file \<Rightarrow> json list" where
  "m_config_load_prompts file =
     (case file of
        Parsed root \<Rightarrow> (case root of Some (JArray prompts) \<Rightarrow> prompts | _ \<Rightarrow> [])
      | Unreadable \<Rightarrow> [])"

subsection \<open>API key\<close>

definition parse_authinfo_line :: "string option \<Rightarrow> string option" where
  "parse_authinfo_line line =
     (case line of
        None \<Rightarrow> None
      | Some l \<Rightarrow>
          if l = [] then None
          else
            let tokens = g_strsplit l (CHR '' '');
                token_count = length tokens
            in if token_count \<ge> 6 \<and>
                  tokens ! 0 = ''machine'' \<and>
                  tokens ! 1 = ''api.openai.com'' \<and>
                  tokens ! 2 = ''login'' \<and>
                  tokens ! 3 = ''apikey'' \<and>
                  tokens ! 4 = ''password''
               then Some (tokens ! 5)
               else None)"

text \<open>The loop over the lines of the file: the first line that yields a key ends it.\<close>

fun load_api_key_lines :: "string list \<Rightarrow> string option" where
  "load_api_key_lines [] = None"
| "load_api_key_lines (l # ls) =
     (case parse_authinfo_line (Some l) of
        Some api_key \<Rightarrow> Some api_key
      | None \<Rightarrow> load_api_key_lines ls)"

text \<open>
  The argument is what \<^verbatim>\<open>g_file_get_contents\<close> reads from \<^verbatim>\<open>~/.authinfo\<close>:
  \<open>None\<close> when the call fails.
\<close>

definition m_config_load_api_key :: "string option \<Rightarrow> string option" where
  "m_config_load_api_key authinfo =
     (case authinfo of
        Some content \<Rightarrow> load_api_key_lines (g_strsplit content (CHR 0x0A))
      | None \<Rightarrow> None)"

text \<open>
  The specification's wording of the pattern, for comparison: a line that is exactly
  the six tokens \<^verbatim>\<open>machine api.openai.com login apikey password <value>\<close>.
\<close>

definition exact_six_token_line :: "string \<Rightarrow> bool" where
  "exact_six_token_line l =
     (case g_strsplit l (CHR '' '') of
        [t0, t1, t2, t3, t4, t5] \<Rightarrow>
          [t0, t1, t2, t3, t4] = [''machine'', ''api.openai.com'', ''login'', ''apikey'', ''password'']
      | _ \<Rightarrow> False)"

subsection \<open>Selected model\<close>

definition m_config_load_model :: "config_file \<Rightarrow> string" where
  "m_config_load_model file =
     (let model =
        (case file of
           Parsed root \<Rightarrow>
             (case root of
                Some (JObject obj) \<Rightarrow>
                  if json_object_has_member obj ''model''
                  then json_object_get_string_member obj ''model''
                  else None
              | _ \<Rightarrow> None)
         | Unreadable \<Rightarrow> None)
      in case model of None \<Rightarrow> M_CONFIG_DEFAULT_MODEL | Some m \<Rightarrow> m)"

text \<open>
  The two calls of \<^verbatim>\<open>m_config_save_model\<close> that can fail for reasons outside the
  program: creating the directory and writing the file.
\<close>

record save_env =
  mkdir_ok :: bool
  write_ok :: bool

text \<open>
  The builder loop: one member per name of \<^verbatim>\<open>json_object_get_members\<close>, with a
  copy of the node \<^verbatim>\<open>json_object_get_member\<close> finds under that name.
\<close>

fun build_members :: "(string \<times> json) list \<Rightarrow> string list \<Rightarrow> (string \<times> json) list" where
  "build_members config_obj [] = []"
| "build_members config_obj (member_name # members) =
     (case json_object_get_member config_obj member_name of
        Some member_node \<Rightarrow> (member_name, member_node) # build_members config_obj members
      | None \<Rightarrow> build_members config_obj members)"

text \<open>
  The result is the return value and the file afterwards. A file that was written is
  read back as the root that was generated; a failed call leaves the file as it was.
\<close>

definition m_config_save_model :: "save_env \<Rightarrow> string option \<Rightarrow> config_file \<Rightarrow> bool \<times> config_file" where
  "m_config_save_model env model file =
     (case model of
        None \<Rightarrow> (False, file)
      | Some m \<Rightarrow>
          if \<not> mkdir_ok env then (False, file)
          else
            let existing =
                  (case file of
                     Parsed root \<Rightarrow> (case root of Some (JObject obj) \<Rightarrow> Some obj | _ \<Rightarrow> None)
                   | Unreadable \<Rightarrow> None);
                config_obj = (case existing of Some obj \<Rightarrow> obj | None \<Rightarrow> []);
                config_obj1 =
                  (if json_object_has_member config_obj ''model''
                   then json_object_remove_member config_obj ''model''
                   else config_obj);
                config_obj2 = json_object_set_string_member config_obj1 ''model'' m;
                root = JObject (build_members config_obj2 (json_object_get_members config_obj2))
            in if write_ok env then (True, Parsed (Some root)) else (False, file))"

section \<open>m-ui-actions.c\<close>

text \<open>
  \<^verbatim>\<open>%s\<close> of \<^verbatim>\<open>g_strdup_printf\<close> prints a NULL argument as \<^verbatim>\<open>(null)\<close>;
  \<^verbatim>\<open>%u\<close> prints an unsigned number in decimal.
\<close>

definition printf_s :: "string option \<Rightarrow> string" where
  "printf_s arg = (case arg of None \<Rightarrow> ''(null)'' | Some s \<Rightarrow> s)"

function printf_u :: "nat \<Rightarrow> string" where
  "printf_u n =
     (if n < 10 then [''0123456789'' ! n]
      else printf_u (n div 10) @ [''0123456789'' ! (n mod 10)])"
  by pat_completeness auto
termination
  by (relation "measure id") auto

definition g_strcmp0 :: "string option \<Rightarrow> string option \<Rightarrow> bool" where
  \<comment> \<open>whether \<^verbatim>\<open>g_strcmp0 (a, b) == 0\<close>\<close>
  "g_strcmp0 a b = (a = b)"

text \<open>
  The callbacks an action entry can point at, the entry, and the two structures of
  m-ui-actions.h. The fields of \<open>MUIActionContext\<close> carry the prefix \<open>ctx_\<close>: the
  plain names are those of \<open>MProofreadContext\<close> below.
\<close>

datatype callback = action_proofread_cb | action_dropdown_cb | action_select_model_cb

record EUIActionEntry =
  name :: "string option"
  icon_name :: "string option"
  label :: "string option"
  accel :: "string option"
  tooltip :: "string option"
  activate :: "callback option"
  parameter_type :: "string option"
  state :: "string option"
  change_state :: "callback option"

record MUIActionContext =
  ctx_prompts :: "json list"
  ctx_api_key :: "string option"
  ctx_model :: "string option"
  ctx_models :: "string list"

record MUIActionEntries =
  entries :: "EUIActionEntry list"
  count :: "32 word"
  total_count :: "32 word"
  eui_xml :: string

text \<open>The lengths are \<^verbatim>\<open>guint\<close>, 32 bits wide.\<close>

definition json_array_get_length :: "json list \<Rightarrow> 32 word" where
  "json_array_get_length arr = of_nat (length arr)"

definition g_list_length :: "'a list \<Rightarrow> 32 word" where
  "g_list_length l = of_nat (length l)"

text \<open>
  \<^verbatim>\<open>json_array_get_object_element\<close> gives NULL where the element is not an
  object, and \<^verbatim>\<open>json_object_get_string_member\<close> gives NULL on a NULL object.
\<close>

definition json_array_get_object_element :: "json list \<Rightarrow> nat \<Rightarrow> (string \<times> json) list option" where
  "json_array_get_object_element arr i =
     (if i < length arr then (case arr ! i of JObject obj \<Rightarrow> Some obj | _ \<Rightarrow> None) else None)"

definition prompt_string_member :: "(string \<times> json) list option \<Rightarrow> string \<Rightarrow> string option" where
  "prompt_string_member prompt k =
     (case prompt of None \<Rightarrow> None | Some obj \<Rightarrow> json_object_get_string_member obj k)"

definition m_ui_action_context_new ::
  "json list \<Rightarrow> string option \<Rightarrow> string option \<Rightarrow> string list \<Rightarrow> MUIActionContext" where
  "m_ui_action_context_new prompts api_key model models =
     \<lparr>ctx_prompts = prompts,
      ctx_api_key = api_key,
      ctx_model = Some (case model of Some m \<Rightarrow> m | None \<Rightarrow> M_CONFIG_DEFAULT_MODEL),
      ctx_models = models\<rparr>"

definition item_xml :: "string \<Rightarrow> string" where
  "item_xml action_name = ''<item action='' @ [CHR 0x27] @ action_name @ [CHR 0x27] @ ''/>''"

definition build_eui_xml :: "json list \<Rightarrow> string list \<Rightarrow> string option \<Rightarrow> string" where
  "build_eui_xml prompts models current_model =
     ''<eui><menu id='main-menu'><placeholder id='custom-menus'>'' @
     ''<submenu action='ai-menu'><placeholder id='ai-menu-holder'>'' @
     concat (map (\<lambda>i. item_xml (''ai-proofread-'' @
                printf_s (prompt_string_member (json_array_get_object_element prompts i) ''name'')))
             [0 ..< unat (json_array_get_length prompts)]) @
     ''<separator/>'' @
     ''<submenu action='ai-model-menu'>'' @
     concat (map (\<lambda>model_id. item_xml (''ai-model-'' @ printf_s (Some model_id))) models) @
     ''</submenu>'' @
     ''</placeholder></submenu></placeholder></menu>'' @
     ''<toolbar id='main-toolbar-with-headerbar'><item action='ai-proofread-dropdown'/></toolbar>'' @
     ''<toolbar id='main-toolbar-without-headerbar'><item action='ai-proofread-dropdown'/></toolbar>'' @
     ''</eui>''"

definition create_prompt_entry :: "(string \<times> json) list option \<Rightarrow> EUIActionEntry" where
  "create_prompt_entry prompt =
     (let prompt_name = prompt_string_member prompt ''name'';
          prompt_text = prompt_string_member prompt ''prompt''
      in \<lparr>name = Some (''ai-proofread-'' @ printf_s prompt_name),
          icon_name = Some ''tools-check-spelling'',
          label = prompt_name,
          accel = None,
          tooltip = prompt_text,
          activate = Some action_proofread_cb,
          parameter_type = None, state = None, change_state = None\<rparr>)"

definition create_menu_entry :: EUIActionEntry where
  "create_menu_entry =
     \<lparr>name = Some ''ai-menu'',
      icon_name = None,
      label = Some ''AI'',
      accel = None,
      tooltip = Some ''AI tools'',
      activate = None,
      parameter_type = None, state = None, change_state = None\<rparr>"

definition create_dropdown_entry :: EUIActionEntry where
  "create_dropdown_entry =
     \<lparr>name = Some ''ai-proofread-dropdown'',
      icon_name = Some ''tools-check-spelling'',
      label = Some ''AI _Proofread'',
      accel = None,
      tooltip = Some ''AI Proofread'',
      activate = Some action_dropdown_cb,
      parameter_type = None, state = None, change_state = None\<rparr>"

definition create_model_menu_entry :: "string option \<Rightarrow> EUIActionEntry" where
  "create_model_menu_entry current_model =
     \<lparr>name = Some ''ai-model-menu'',
      icon_name = None,
      label = Some (''Model ('' @
                (case current_model of Some m \<Rightarrow> m | None \<Rightarrow> M_CONFIG_DEFAULT_MODEL) @ '')''),
      accel = None,
      tooltip = Some ''Select AI model'',
      activate = None,
      parameter_type = None, state = None, change_state = None\<rparr>"

text \<open>The label of the current model starts with a check mark, three bytes in UTF-8.\<close>

definition create_model_entry :: "string \<Rightarrow> bool \<Rightarrow> EUIActionEntry" where
  "create_model_entry model_id is_current =
     \<lparr>name = Some (''ai-model-'' @ printf_s (Some model_id)),
      icon_name = None,
      label = Some (if is_current
                    then [CHR 0xE2, CHR 0x9C, CHR 0x93] @ '' '' @ printf_s (Some model_id)
                    else model_id),
      accel = None,
      tooltip = Some (''Use '' @ printf_s (Some model_id) @ '' model''),
      activate = Some action_select_model_cb,
      parameter_type = None, state = None, change_state = None\<rparr>"

definition validate_entry :: "nat \<Rightarrow> EUIActionEntry \<Rightarrow> EUIActionEntry" where
  "validate_entry i e =
     e\<lparr>name := (case name e of None \<Rightarrow> Some (''ai-proofread-missing-'' @ printf_u i) | Some n \<Rightarrow> Some n),
       label := (case label e of None \<Rightarrow> Some ''(no label)'' | Some l \<Rightarrow> Some l),
       tooltip := (case tooltip e of None \<Rightarrow> Some [] | Some t \<Rightarrow> Some t)\<rparr>"

definition validate_entries :: "EUIActionEntry list \<Rightarrow> 32 word \<Rightarrow> EUIActionEntry list" where
  "validate_entries es n =
     map (\<lambda>(i, e). if i < unat n then validate_entry i e else e) (enumerate 0 es)"

text \<open>
  The array has \<open>total_count\<close> slots and is filled from index 0 upwards: the prompt
  entries, the menu, the dropdown, the model menu, the model entries. The list is the
  entries written, in that order; \<open>None\<close> is the NULL result. While the sum of the
  counts fits in 32 bits the entries written are the slots of the array; past that
  the C code would write beyond its allocation, and the properties below assume
  the bound. The context pointer is dereferenced unchecked, so it is a context.
\<close>

definition m_ui_build_action_entries :: "json list option \<Rightarrow> MUIActionContext \<Rightarrow> MUIActionEntries option" where
  "m_ui_build_action_entries prompts action_context =
     (case prompts of
        None \<Rightarrow> None
      | Some ps \<Rightarrow>
          let n_prompts = json_array_get_length ps
          in if n_prompts = 0 then None
             else
               let n_models = g_list_length (ctx_models action_context);
                   total = n_prompts + 3 + n_models;
                   prompt_entries =
                     map (\<lambda>i. create_prompt_entry (json_array_get_object_element ps i))
                         [0 ..< unat n_prompts];
                   model_entries =
                     map (\<lambda>model_id. create_model_entry model_id
                            (g_strcmp0 (Some model_id) (ctx_model action_context)))
                         (ctx_models action_context);
                   written =
                     prompt_entries @
                     [create_menu_entry, create_dropdown_entry,
                      create_model_menu_entry (ctx_model action_context)] @
                     model_entries
               in Some \<lparr>entries = validate_entries written total,
                         count = n_prompts,
                         total_count = total,
                         eui_xml = build_eui_xml ps (ctx_models action_context)
                                     (ctx_model action_context)\<rparr>)"

text \<open>
  What the composer's UI manager holds: the actions registered with it, and the
  file's static \<^verbatim>\<open>g_action_context\<close>. The arguments of
  \<^verbatim>\<open>m_ui_register_actions\<close> are taken to pass its checks.
\<close>

record ui_state =
  g_action_context :: "MUIActionContext option"
  registered :: "EUIActionEntry list"

definition m_ui_register_actions :: "MUIActionEntries \<Rightarrow> MUIActionContext \<Rightarrow> ui_state \<Rightarrow> ui_state" where
  "m_ui_register_actions action_entries action_context ui =
     ui\<lparr>g_action_context := Some action_context,
        registered := registered ui @ take (unat (total_count action_entries)) (entries action_entries)\<rparr>"

section \<open>m-msg-composer-extension.c\<close>

record MMsgComposerExtensionPrivate =
  priv_prompts :: "json list option"
  chatgpt_api_key :: "string option"
  priv_model :: "string option"
  priv_models :: "string list"
  ui_context :: "MUIActionContext option"

definition validate_configuration :: "MMsgComposerExtensionPrivate \<Rightarrow> bool" where
  "validate_configuration priv =
     (case priv_prompts priv of
        None \<Rightarrow> False
      | Some ps \<Rightarrow>
          if json_array_get_length ps = 0 then False
          else if chatgpt_api_key priv = None then False
          else True)"

text \<open>The extension and the composer are taken to pass their type checks.\<close>

definition m_msg_composer_extension_add_ui ::
  "MMsgComposerExtensionPrivate \<Rightarrow> ui_state \<Rightarrow> MMsgComposerExtensionPrivate \<times> ui_state" where
  "m_msg_composer_extension_add_ui priv ui =
     (if \<not> validate_configuration priv then (priv, ui)
      else
        let ctx = m_ui_action_context_new
                    (case priv_prompts priv of Some ps \<Rightarrow> ps | None \<Rightarrow> [])
                    (chatgpt_api_key priv) (priv_model priv) (priv_models priv);
            priv' = priv\<lparr>ui_context := Some ctx\<rparr>
        in case m_ui_build_action_entries (priv_prompts priv) ctx of
             None \<Rightarrow> (priv', ui)
           | Some action_entries \<Rightarrow> (priv', m_ui_register_actions action_entries ctx ui))"

section \<open>m-proofreader.c\<close>

subsection \<open>The host: main loop, widgets, editor, alert sink, worker\<close>

text \<open>
  The proofreader acts on its surroundings only through calls into GLib, GTK,
  Evolution and the remote client. The model records every such call in a trace, in
  the order the calls are made, and keeps the part of the host's state the code
  depends on: the timeout sources attached to the main loop, each with the interval
  it was added with, the wait dialogs that are shown, and the objects that are
  windows. One entry of the trace is not a call of the code: \<open>SourceDestroyed\<close> is
  the main loop destroying a timeout source whose callback returned
  \<^verbatim>\<open>G_SOURCE_REMOVE\<close>. Log output
  (\<^verbatim>\<open>g_debug\<close>, \<^verbatim>\<open>g_warning\<close>, the message of \<^verbatim>\<open>g_return_if_fail\<close>) is not
  part of the model.
\<close>

datatype event =
    GetContent nat
  | TimeoutAdd nat nat
  | SourceRemove nat
  | DialogShow nat string
  | WidgetDestroy nat
  | RunInThread string
  | ChatgptProofread string "string option" "json list" "string option" "string option"
  | AlertSubmit string string
  | MessageDialogRun string
  | InsertContent string
  | ContextFree
  | SourceDestroyed nat

record world =
  next_id :: nat
  timeouts :: "(nat \<times> nat) list"
  widgets :: "nat list"
  windows :: "nat list"
  trace :: "event list"

definition PROOFREAD_WAIT_DELAY_MS :: nat where
  "PROOFREAD_WAIT_DELAY_MS = 800"

definition G_SOURCE_REMOVE :: bool where
  "G_SOURCE_REMOVE = False"

text \<open>\<^verbatim>\<open>g_timeout_add\<close> attaches a source and returns its id, which is never 0.\<close>

definition g_timeout_add :: "nat \<Rightarrow> world \<Rightarrow> nat \<times> world" where
  "g_timeout_add interval w =
     (let sid = Suc (next_id w)
      in (sid, w\<lparr>next_id := sid,
                timeouts := timeouts w @ [(sid, interval)],
                trace := trace w @ [TimeoutAdd interval sid]\<rparr>))"

definition g_source_remove :: "nat \<Rightarrow> world \<Rightarrow> world" where
  "g_source_remove sid w =
     w\<lparr>timeouts := filter (\<lambda>s. fst s \<noteq> sid) (timeouts w),
       trace := trace w @ [SourceRemove sid]\<rparr>"

text \<open>\<^verbatim>\<open>gtk_dialog_new\<close> and what follows up to \<^verbatim>\<open>gtk_widget_show_all\<close>.\<close>

definition gtk_dialog_show :: "string \<Rightarrow> world \<Rightarrow> nat \<times> world" where
  "gtk_dialog_show message w =
     (let dialog = Suc (next_id w)
      in (dialog, w\<lparr>next_id := dialog,
                    widgets := widgets w @ [dialog],
                    trace := trace w @ [DialogShow dialog message]\<rparr>))"

definition gtk_widget_destroy :: "nat \<Rightarrow> world \<Rightarrow> world" where
  "gtk_widget_destroy widget w =
     w\<lparr>widgets := removeAll widget (widgets w), trace := trace w @ [WidgetDestroy widget]\<rparr>"

definition GTK_IS_WINDOW :: "world \<Rightarrow> nat \<Rightarrow> bool" where
  "GTK_IS_WINDOW w obj = (obj \<in> set (windows w))"

definition emit :: "event \<Rightarrow> world \<Rightarrow> world" where
  "emit e w = w\<lparr>trace := trace w @ [e]\<rparr>"

subsection \<open>The context and the wait indicator\<close>

text \<open>
  The context is one object in the C code, reached from the timer callback and from
  the task alike; here each function takes the current value and returns the new one.
\<close>

record MProofreadContext =
  cnt_editor :: nat
  prompt_id :: "string option"
  prompts :: "json list"
  api_key :: "string option"
  model :: "string option"
  composer :: "nat option"
  wait_dialog :: "nat option"
  wait_timeout_id :: nat

definition proofreader_wait_indicator_show :: "world \<times> MProofreadContext \<Rightarrow> bool \<times> world \<times> MProofreadContext" where
  "proofreader_wait_indicator_show wc =
     (let w = fst wc; context = snd wc
      in case composer context of
           None \<Rightarrow> (G_SOURCE_REMOVE, w, context)
         | Some window \<Rightarrow>
             if \<not> GTK_IS_WINDOW w window then (G_SOURCE_REMOVE, w, context)
             else
               let message = ''Proofreading with '' @
                       printf_s (Some (case model context of Some m \<Rightarrow> m | None \<Rightarrow> ''AI'')) @
                       '' may take a little longer. Please wait...'';
                   (dialog, w') = gtk_dialog_show message w
               in (G_SOURCE_REMOVE, w',
                   context\<lparr>wait_dialog := Some dialog, wait_timeout_id := 0\<rparr>))"

definition proofreader_wait_indicator_schedule :: "world \<times> MProofreadContext \<Rightarrow> world \<times> MProofreadContext" where
  "proofreader_wait_indicator_schedule wc =
     (let w = fst wc; context = snd wc
      in if wait_timeout_id context \<noteq> 0 \<or> wait_dialog context \<noteq> None then (w, context)
         else
           let (sid, w') = g_timeout_add PROOFREAD_WAIT_DELAY_MS w
           in (w', context\<lparr>wait_timeout_id := sid\<rparr>))"

definition proofreader_wait_indicator_clear :: "world \<times> MProofreadContext \<Rightarrow> world \<times> MProofreadContext" where
  "proofreader_wait_indicator_clear wc =
     (let w = fst wc; context = snd wc;
          (w1, context1) =
            (if wait_timeout_id context \<noteq> 0
             then (g_source_remove (wait_timeout_id context) w, context\<lparr>wait_timeout_id := 0\<rparr>)
             else (w, context))
      in case wait_dialog context1 of
           Some dialog \<Rightarrow> (gtk_widget_destroy dialog w1, context1\<lparr>wait_dialog := None\<rparr>)
         | None \<Rightarrow> (w1, context1))"

definition m_proofreader_context_new ::
  "nat \<Rightarrow> string option \<Rightarrow> json list \<Rightarrow> string option \<Rightarrow> string option \<Rightarrow> nat option
     \<Rightarrow> MProofreadContext" where
  "m_proofreader_context_new cnt_editor' prompt_id' prompts' api_key' model' composer' =
     \<lparr>cnt_editor = cnt_editor',
      prompt_id = prompt_id',
      prompts = prompts',
      api_key = api_key',
      model = model',
      composer = composer',
      wait_dialog = None,
      wait_timeout_id = 0\<rparr>"

definition m_proofreader_context_free :: "MProofreadContext option \<Rightarrow> world \<Rightarrow> world" where
  "m_proofreader_context_free context w =
     (case context of
        None \<Rightarrow> w
      | Some c \<Rightarrow> emit ContextFree (fst (proofreader_wait_indicator_clear (w, c))))"

subsection \<open>The worker and its completion\<close>

text \<open>
  \<^verbatim>\<open>m_chatgpt_proofread\<close> is declared in m-chatgpt-api.h and defined elsewhere:
  what it returns, the text and the error it sets, is a parameter.
\<close>

record api_reply =
  reply_text :: "string option"
  reply_error :: "string option"

datatype task_result = TaskError string | TaskPointer "string option"

definition proofread_task_thread ::
  "MProofreadContext \<Rightarrow> string \<Rightarrow> api_reply \<Rightarrow> world \<Rightarrow> task_result \<times> world" where
  "proofread_task_thread context content reply w =
     (let w' = emit (ChatgptProofread content (prompt_id context) (prompts context)
                       (api_key context) (model context)) w
      in case reply_error reply of
           Some message \<Rightarrow> (TaskError message, w')
         | None \<Rightarrow> (TaskPointer (reply_text reply), w'))"

definition show_error_alert :: "nat option \<Rightarrow> string \<Rightarrow> world \<Rightarrow> world" where
  "show_error_alert composer' error_message w =
     emit (AlertSubmit ''ai:error-proofreading'' error_message) w"

definition show_no_response_dialog :: "nat option \<Rightarrow> world \<Rightarrow> world" where
  "show_no_response_dialog composer' w =
     emit (MessageDialogRun ''No response received from proofreading service'') w"

definition insert_proofread_content :: "nat \<Rightarrow> string \<Rightarrow> world \<Rightarrow> world" where
  "insert_proofread_content cnt_editor' content w = emit (InsertContent content) w"

definition proofread_task_completed :: "task_result \<Rightarrow> world \<times> MProofreadContext \<Rightarrow> world" where
  "proofread_task_completed result wc =
     (let (w1, context) = proofreader_wait_indicator_clear wc;
          w2 = (case result of
                  TaskError message \<Rightarrow> show_error_alert (composer context) message w1
                | TaskPointer None \<Rightarrow> show_no_response_dialog (composer context) w1
                | TaskPointer (Some proofread_text) \<Rightarrow>
                    insert_proofread_content (cnt_editor context) proofread_text w1)
      in m_proofreader_context_free (Some context) w2)"

text \<open>The task data is the content; the context travels beside it.\<close>

definition start_proofread_task ::
  "world \<times> MProofreadContext \<Rightarrow> string \<Rightarrow> world \<times> MProofreadContext \<times> string" where
  "start_proofread_task wc original_content =
     (let (w1, context) = proofreader_wait_indicator_schedule wc
      in (emit (RunInThread original_content) w1, context, original_content))"

subsection \<open>Content retrieval\<close>

text \<open>
  What the editor hands to the callback: an error, no content hash, or a hash whose
  plain-text entry is a string or missing.
\<close>

datatype content_result = ContentError string | NoContentHash | ContentHash "string option"

text \<open>The result is the task handed off, or \<open>None\<close> when the context was freed.\<close>

definition m_proofreader_content_ready_cb ::
  "content_result \<Rightarrow> world \<times> MProofreadContext \<Rightarrow> world \<times> (MProofreadContext \<times> string) option" where
  "m_proofreader_content_ready_cb result wc =
     (let w = fst wc; context = snd wc
      in case result of
           ContentError message \<Rightarrow> (m_proofreader_context_free (Some context) w, None)
         | NoContentHash \<Rightarrow> (m_proofreader_context_free (Some context) w, None)
         | ContentHash content \<Rightarrow>
             (case content of
                Some text \<Rightarrow>
                  (let (w', context', data) = start_proofread_task (w, context) text
                   in (w', Some (context', data)))
              | None \<Rightarrow> (m_proofreader_context_free (Some context) w, None)))"

definition m_proofreader_start ::
  "nat option \<Rightarrow> string option \<Rightarrow> json list option \<Rightarrow> string option \<Rightarrow> string option \<Rightarrow> nat option
     \<Rightarrow> world \<Rightarrow> world \<times> MProofreadContext option" where
  "m_proofreader_start cnt_editor' prompt_id' prompts' api_key' model' composer' w =
     (case cnt_editor' of
        None \<Rightarrow> (w, None)
      | Some editor \<Rightarrow>
          if prompt_id' = None then (w, None)
          else
            case prompts' of
              None \<Rightarrow> (w, None)
            | Some ps \<Rightarrow>
                if api_key' = None then (w, None)
                else
                  let context = m_proofreader_context_new editor prompt_id' ps api_key' model' composer'
                  in (emit (GetContent editor) w, Some context))"

subsection \<open>One invocation, as the host runs it\<close>

text \<open>
  The main loop dispatches a timeout source that is still attached: it calls the
  callback with the context, and destroys the source when the callback returns
  \<^verbatim>\<open>G_SOURCE_REMOVE\<close>.
\<close>

definition timeout_dispatch :: "nat \<Rightarrow> world \<times> MProofreadContext \<Rightarrow> world \<times> MProofreadContext" where
  "timeout_dispatch sid wc =
     (if sid \<in> set (map fst (timeouts (fst wc)))
      then
        let (continue, w', context') = proofreader_wait_indicator_show wc
        in if continue then (w', context')
           else (emit (SourceDestroyed sid)
                   (w'\<lparr>timeouts := filter (\<lambda>s. fst s \<noteq> sid) (timeouts w')\<rparr>), context')
      else wc)"

text \<open>
  The editor answers the request with \<open>content\<close>; the remote call takes \<open>elapsed_ms\<close>
  and gives \<open>reply\<close>. The source that the dispatch attached is looked up in the main
  loop with the interval the code gave it: the completion runs before the timeout
  when the call took less than that interval, and after it otherwise. Nothing else
  keeps the main loop busy.
\<close>

record scenario =
  content :: content_result
  reply :: api_reply
  elapsed_ms :: nat

definition invocation ::
  "nat option \<Rightarrow> string option \<Rightarrow> json list option \<Rightarrow> string option \<Rightarrow> string option \<Rightarrow> nat option
     \<Rightarrow> scenario \<Rightarrow> world \<Rightarrow> world" where
  "invocation cnt_editor' prompt_id' prompts' api_key' model' composer' sc w =
     (case m_proofreader_start cnt_editor' prompt_id' prompts' api_key' model' composer' w of
        (w1, None) \<Rightarrow> w1
      | (w1, Some context) \<Rightarrow>
          (case m_proofreader_content_ready_cb (content sc) (w1, context) of
             (w2, None) \<Rightarrow> w2
           | (w2, Some (context2, data)) \<Rightarrow>
               let (result, w3) = proofread_task_thread context2 data (reply sc) w2;
                   sid = wait_timeout_id context2;
                   wc4 = (case map_of (timeouts w3) sid of
                            Some interval \<Rightarrow>
                              if elapsed_ms sc < interval then (w3, context2)
                              else timeout_dispatch sid (w3, context2)
                          | None \<Rightarrow> (w3, context2))
               in proofread_task_completed result wc4))"

subsection \<open>Reading a trace\<close>

definition emitted :: "world \<Rightarrow> world \<Rightarrow> event list" where
  "emitted w w' = drop (length (trace w)) (trace w')"

fun is_alert :: "event \<Rightarrow> bool" where
  "is_alert (AlertSubmit tag message) = True"
| "is_alert e = False"

fun is_insert :: "event \<Rightarrow> bool" where
  "is_insert (InsertContent text) = True"
| "is_insert e = False"

fun is_remote_call :: "event \<Rightarrow> bool" where
  "is_remote_call (ChatgptProofread text pid ps key m) = True"
| "is_remote_call e = False"

fun is_wait_show :: "event \<Rightarrow> bool" where
  "is_wait_show (DialogShow d message) = True"
| "is_wait_show e = False"

fun is_timeout_add :: "event \<Rightarrow> bool" where
  "is_timeout_add (TimeoutAdd interval sid) = True"
| "is_timeout_add e = False"

text \<open>The three ways a handle of the wait indicator ends.\<close>

fun is_release :: "event \<Rightarrow> bool" where
  "is_release (SourceRemove sid) = True"
| "is_release (SourceDestroyed sid) = True"
| "is_release (WidgetDestroy d) = True"
| "is_release e = False"

fun is_outcome :: "event \<Rightarrow> bool" where
  "is_outcome (AlertSubmit tag message) = True"
| "is_outcome (MessageDialogRun message) = True"
| "is_outcome (InsertContent text) = True"
| "is_outcome e = False"

text \<open>
  Whether some outcome of a trace is delivered while a wait dialog is open, given
  the wait dialogs open at its start.
\<close>

fun outcome_over_wait_dialog :: "nat list \<Rightarrow> event list \<Rightarrow> bool" where
  "outcome_over_wait_dialog open_dialogs [] = False"
| "outcome_over_wait_dialog open_dialogs (DialogShow d message # es) =
     outcome_over_wait_dialog (open_dialogs @ [d]) es"
| "outcome_over_wait_dialog open_dialogs (WidgetDestroy d # es) =
     outcome_over_wait_dialog (removeAll d open_dialogs) es"
| "outcome_over_wait_dialog open_dialogs (e # es) =
     ((is_outcome e \<and> open_dialogs \<noteq> []) \<or> outcome_over_wait_dialog open_dialogs es)"

text \<open>
  The calls \<^verbatim>\<open>proofreader_wait_indicator_clear\<close> makes for a context: the source
  removed if a timeout id is stored, the dialog destroyed if one is stored.
\<close>

definition clear_events :: "MProofreadContext \<Rightarrow> event list" where
  "clear_events c =
     (if wait_timeout_id c = 0 then [] else [SourceRemove (wait_timeout_id c)]) @
     (case wait_dialog c of None \<Rightarrow> [] | Some d \<Rightarrow> [WidgetDestroy d])"

text \<open>Handles are handed out upwards from \<open>next_id\<close>, so the ones in use lie below it.\<close>

definition handles_below :: "world \<Rightarrow> bool" where
  "handles_below w =
     (list_all (\<lambda>s. fst s \<le> next_id w) (timeouts w) \<and>
      list_all (\<lambda>h. h \<le> next_id w) (widgets w))"

text \<open>
  Following the handles through a trace, from the sources attached and the dialogs
  shown at its start: \<open>teardown_faults\<close> collects the releases of a handle that is
  not live when it is released (a source removed or destroyed that is not attached,
  a dialog destroyed that is not shown), and \<open>handles_left\<close> gives the sources and
  dialogs that are live at the end.
\<close>

fun teardown_faults :: "nat list \<Rightarrow> nat list \<Rightarrow> event list \<Rightarrow> event list" where
  "teardown_faults srcs dlgs [] = []"
| "teardown_faults srcs dlgs (TimeoutAdd interval sid # es) =
     teardown_faults (srcs @ [sid]) dlgs es"
| "teardown_faults srcs dlgs (SourceDestroyed sid # es) =
     (if sid \<in> set srcs then [] else [SourceDestroyed sid]) @
     teardown_faults (removeAll sid srcs) dlgs es"
| "teardown_faults srcs dlgs (SourceRemove sid # es) =
     (if sid \<in> set srcs then [] else [SourceRemove sid]) @
     teardown_faults (removeAll sid srcs) dlgs es"
| "teardown_faults srcs dlgs (DialogShow d message # es) =
     teardown_faults srcs (dlgs @ [d]) es"
| "teardown_faults srcs dlgs (WidgetDestroy d # es) =
     (if d \<in> set dlgs then [] else [WidgetDestroy d]) @
     teardown_faults srcs (removeAll d dlgs) es"
| "teardown_faults srcs dlgs (e # es) = teardown_faults srcs dlgs es"

fun handles_left :: "nat list \<Rightarrow> nat list \<Rightarrow> event list \<Rightarrow> nat list \<times> nat list" where
  "handles_left srcs dlgs [] = (srcs, dlgs)"
| "handles_left srcs dlgs (TimeoutAdd interval sid # es) = handles_left (srcs @ [sid]) dlgs es"
| "handles_left srcs dlgs (SourceDestroyed sid # es) = handles_left (removeAll sid srcs) dlgs es"
| "handles_left srcs dlgs (SourceRemove sid # es) = handles_left (removeAll sid srcs) dlgs es"
| "handles_left srcs dlgs (DialogShow d message # es) = handles_left srcs (dlgs @ [d]) es"
| "handles_left srcs dlgs (WidgetDestroy d # es) = handles_left srcs (removeAll d dlgs) es"
| "handles_left srcs dlgs (e # es) = handles_left srcs dlgs es"

text \<open>The result the worker hands to the completion, and the call the completion makes for it.\<close>

definition task_result_of :: "api_reply \<Rightarrow> task_result" where
  "task_result_of r =
     (case reply_error r of Some message \<Rightarrow> TaskError message | None \<Rightarrow> TaskPointer (reply_text r))"

fun outcome_event :: "task_result \<Rightarrow> event" where
  "outcome_event (TaskError message) = AlertSubmit ''ai:error-proofreading'' message"
| "outcome_event (TaskPointer None) =
     MessageDialogRun ''No response received from proofreading service''"
| "outcome_event (TaskPointer (Some t)) = InsertContent t"

definition wait_message :: "string option \<Rightarrow> string" where
  "wait_message m =
     ''Proofreading with '' @ (case m of Some x \<Rightarrow> x | None \<Rightarrow> ''AI'') @
     '' may take a little longer. Please wait...''"

text \<open>
  The specification's wording of a prompt entry, for comparison: an object with a
  string \<^verbatim>\<open>id\<close> and a string \<^verbatim>\<open>text\<close>.
\<close>

definition prompt_entry_well_formed :: "json \<Rightarrow> bool" where
  "prompt_entry_well_formed j =
     (case j of
        JObject obj \<Rightarrow>
          json_object_get_string_member obj ''id'' \<noteq> None \<and>
          json_object_get_string_member obj ''text'' \<noteq> None
      | _ \<Rightarrow> False)"

text \<open>The calls one invocation makes, from the request to its end.\<close>

definition invocation_events ::
  "nat option \<Rightarrow> string option \<Rightarrow> json list option \<Rightarrow> string option \<Rightarrow> string option \<Rightarrow> nat option
     \<Rightarrow> scenario \<Rightarrow> world \<Rightarrow> event list" where
  "invocation_events cnt_editor' prompt_id' prompts' api_key' model' composer' sc w =
     emitted w (invocation cnt_editor' prompt_id' prompts' api_key' model' composer' sc w)"

text \<open>
  For the examples: a host with nothing pending and one composer window, object 7,
  and a context for editor 1 in that composer.
\<close>

definition idle_world :: world where
  "idle_world = \<lparr>next_id = 0, timeouts = [], widgets = [], windows = [7], trace = []\<rparr>"

definition sample_context :: MProofreadContext where
  "sample_context =
     m_proofreader_context_new 1 (Some ''ai-proofread-fix'') [] (Some ''sk-1'') (Some ''gpt-4o'') (Some 7)"

definition sample_action_context :: MUIActionContext where
  "sample_action_context =
     \<lparr>ctx_prompts = [JObject [(''name'', JString ''fix''), (''prompt'', JString ''Fix it'')]],
      ctx_api_key = Some ''sk-1'',
      ctx_model = Some ''gpt-4o'',
      ctx_models = [''gpt-4o'', ''gpt-4o-mini'']\<rparr>"

section \<open>Properties of m-config.c\<close>

subsection \<open>Splitting\<close>

lemma g_strsplit_from_no_delim:
  "d \<notin> set s \<Longrightarrow> g_strsplit_from d tok s = [tok @ s]"
  by (induction s arbitrary: tok) auto

lemma six_tokens_shape:
  assumes "6 \<le> length xs"
  shows "xs = xs ! 0 # xs ! 1 # xs ! 2 # xs ! 3 # xs ! 4 # xs ! 5 # drop 6 xs"
proof -
  obtain a x1 where 1: "xs = a # x1" using assms by (cases xs) auto
  obtain b x2 where 2: "x1 = b # x2" using assms 1 by (cases x1) auto
  obtain c x3 where 3: "x2 = c # x3" using assms 1 2 by (cases x2) auto
  obtain d x4 where 4: "x3 = d # x4" using assms 1 2 3 by (cases x3) auto
  obtain e x5 where 5: "x4 = e # x5" using assms 1 2 3 4 by (cases x4) auto
  obtain f x6 where 6: "x5 = f # x6" using assms 1 2 3 4 5 by (cases x5) auto
  show ?thesis by (simp add: 1 2 3 4 5 6)
qed

lemma parse_authinfo_line_iff:
  "parse_authinfo_line (Some l) = Some v \<longleftrightarrow>
     (\<exists>rest. g_strsplit l (CHR '' '') =
        ''machine'' # ''api.openai.com'' # ''login'' # ''apikey'' # ''password'' # v # rest)"
proof
  assume "parse_authinfo_line (Some l) = Some v"
  then have len: "6 \<le> length (g_strsplit l (CHR '' ''))"
    and t: "g_strsplit l (CHR '' '') ! 0 = ''machine''"
       "g_strsplit l (CHR '' '') ! 1 = ''api.openai.com''"
       "g_strsplit l (CHR '' '') ! 2 = ''login''"
       "g_strsplit l (CHR '' '') ! 3 = ''apikey''"
       "g_strsplit l (CHR '' '') ! 4 = ''password''"
       "g_strsplit l (CHR '' '') ! 5 = v"
    by (auto simp: parse_authinfo_line_def Let_def split: if_splits)
  from six_tokens_shape [OF len]
  have "g_strsplit l (CHR '' '') =
        ''machine'' # ''api.openai.com'' # ''login'' # ''apikey'' # ''password'' # v #
        drop 6 (g_strsplit l (CHR '' ''))"
    by (simp only: t)
  then show "\<exists>rest. g_strsplit l (CHR '' '') =
        ''machine'' # ''api.openai.com'' # ''login'' # ''apikey'' # ''password'' # v # rest"
    by (rule exI)
next
  assume "\<exists>rest. g_strsplit l (CHR '' '') =
        ''machine'' # ''api.openai.com'' # ''login'' # ''apikey'' # ''password'' # v # rest"
  then obtain rest where eq: "g_strsplit l (CHR '' '') =
        ''machine'' # ''api.openai.com'' # ''login'' # ''apikey'' # ''password'' # v # rest"
    by blast
  then have "l \<noteq> []" by (auto simp: g_strsplit_def)
  with eq show "parse_authinfo_line (Some l) = Some v"
    by (simp add: parse_authinfo_line_def Let_def)
qed

lemma parse_authinfo_line_short:
  "length (g_strsplit l (CHR '' '')) < 6 \<Longrightarrow> parse_authinfo_line (Some l) = None"
  by (simp add: parse_authinfo_line_def Let_def)

lemma load_api_key_lines_find:
  "load_api_key_lines ls =
     (case List.find (\<lambda>l. parse_authinfo_line (Some l) \<noteq> None) ls of
        None \<Rightarrow> None
      | Some l \<Rightarrow> parse_authinfo_line (Some l))"
  by (induction ls) (auto split: option.splits)

lemma load_api_key_lines_none:
  "(\<forall>l \<in> set ls. parse_authinfo_line (Some l) = None) \<Longrightarrow> load_api_key_lines ls = None"
  by (induction ls) auto

lemma parse_authinfo_line_exact:
  assumes "CHR '' '' \<notin> set v"
  shows "parse_authinfo_line (Some (''machine api.openai.com login apikey password '' @ v)) = Some v"
  using assms
  by (simp add: parse_authinfo_line_def g_strsplit_def g_strsplit_from_no_delim)

lemma load_api_key_single_line:
  assumes "CHR '' '' \<notin> set v" and "CHR 0x0A \<notin> set v"
  shows "m_config_load_api_key (Some (''machine api.openai.com login apikey password '' @ v)) = Some v"
proof -
  have "g_strsplit (''machine api.openai.com login apikey password '' @ v) (CHR 0x0A)
          = [''machine api.openai.com login apikey password '' @ v]"
    using assms(2) by (simp add: g_strsplit_def g_strsplit_from_no_delim)
  then show ?thesis
    using parse_authinfo_line_exact [OF assms(1)] by (simp add: m_config_load_api_key_def)
qed

subsection \<open>The configuration object\<close>

lemma build_members_names:
  "set names \<subseteq> fst ` set obj \<Longrightarrow> map fst (build_members obj names) = names"
proof (induction names)
  case Nil
  then show ?case by simp
next
  case (Cons n names)
  then have "n \<in> fst ` set obj" by simp
  then obtain v where "map_of obj n = Some v"
    by (metis domD dom_map_of_conv_image_fst)
  with Cons show ?case by (simp add: json_object_get_member_def)
qed

lemma build_members_lookup:
  "map_of (build_members obj names) k = (if k \<in> set names then map_of obj k else None)"
  by (induction names) (auto simp: json_object_get_member_def split: option.splits)

lemma build_members_self_names:
  "json_object_get_members (build_members obj (json_object_get_members obj)) =
   json_object_get_members obj"
  by (simp add: json_object_get_members_def build_members_names)

lemma build_members_self_lookup:
  "json_object_get_member (build_members obj (json_object_get_members obj)) k =
   json_object_get_member obj k"
proof (cases "k \<in> fst ` set obj")
  case True
  then show ?thesis
    by (simp add: json_object_get_member_def json_object_get_members_def build_members_lookup)
next
  case False
  then have "map_of obj k = None" by (simp add: map_of_eq_None_iff)
  with False show ?thesis
    by (simp add: json_object_get_member_def json_object_get_members_def build_members_lookup)
qed

lemma map_of_filter_other:
  "k \<noteq> k' \<Longrightarrow> map_of (filter (\<lambda>kv. fst kv \<noteq> k') xs) k = map_of xs k"
  by (induction xs) auto

lemma update_model_eq:
  "json_object_set_string_member
     (if json_object_has_member obj ''model'' then json_object_remove_member obj ''model'' else obj)
     ''model'' m
   = filter (\<lambda>kv. fst kv \<noteq> ''model'') obj @ [(''model'', JString m)]"
proof -
  have a: "\<not> json_object_has_member (json_object_remove_member obj ''model'') ''model''"
    by (auto simp: json_object_has_member_def json_object_get_members_def
        json_object_remove_member_def)
  have b: "\<not> json_object_has_member obj ''model'' \<Longrightarrow>
           filter (\<lambda>kv. fst kv \<noteq> ''model'') obj = obj"
    by (induction obj) (auto simp: json_object_has_member_def json_object_get_members_def)
  show ?thesis
    using a b by (auto simp: json_object_set_string_member_def json_object_remove_member_def)
qed

lemma save_model_written:
  assumes "m_config_save_model env (Some m) file = (True, file')"
  shows "file' = Parsed (Some (JObject (build_members
           (filter (\<lambda>kv. fst kv \<noteq> ''model'')
              (case file of Parsed (Some (JObject obj)) \<Rightarrow> obj | _ \<Rightarrow> []) @
            [(''model'', JString m)])
           (json_object_get_members (filter (\<lambda>kv. fst kv \<noteq> ''model'')
              (case file of Parsed (Some (JObject obj)) \<Rightarrow> obj | _ \<Rightarrow> []) @
            [(''model'', JString m)])))))"
  using assms unfolding m_config_save_model_def Let_def update_model_eq
  by (auto split: if_splits config_file.splits option.splits json.splits)

subsection \<open>Claims\<close>

text \<open>
  C3, as amended. The key is the sixth token of the first line of the file that has
  at least six space-separated tokens of which the first five are \<^verbatim>\<open>machine\<close>,
  \<^verbatim>\<open>api.openai.com\<close>, \<^verbatim>\<open>login\<close>, \<^verbatim>\<open>apikey\<close>, \<^verbatim>\<open>password\<close>; tokens after
  the sixth are ignored. A file that cannot be read, or in which no line matches,
  gives nothing; a line with fewer than six tokens is passed over; the line
  \<^verbatim>\<open>machine api.openai.com login apikey password <value>\<close> gives its value.
\<close>

theorem load_api_key_first_match:
  "m_config_load_api_key None = None \<and>
   m_config_load_api_key (Some file_text) =
     (case List.find (\<lambda>l. parse_authinfo_line (Some l) \<noteq> None) (g_strsplit file_text (CHR 0x0A)) of
        None \<Rightarrow> None
      | Some l \<Rightarrow> parse_authinfo_line (Some l)) \<and>
   (parse_authinfo_line (Some line) = Some v \<longleftrightarrow>
      (\<exists>rest. g_strsplit line (CHR '' '') =
         ''machine'' # ''api.openai.com'' # ''login'' # ''apikey'' # ''password'' # v # rest)) \<and>
   ((\<forall>l \<in> set (g_strsplit file_text (CHR 0x0A)). parse_authinfo_line (Some l) = None) \<longrightarrow>
      m_config_load_api_key (Some file_text) = None) \<and>
   (length (g_strsplit short (CHR '' '')) < 6 \<longrightarrow>
      load_api_key_lines (short # ls) = load_api_key_lines ls) \<and>
   (CHR '' '' \<notin> set key \<and> CHR 0x0A \<notin> set key \<longrightarrow>
      m_config_load_api_key (Some (''machine api.openai.com login apikey password '' @ key)) =
        Some key)"
proof -
  have "m_config_load_api_key None = None"
    by (simp add: m_config_load_api_key_def)
  moreover have "m_config_load_api_key (Some file_text) =
     (case List.find (\<lambda>l. parse_authinfo_line (Some l) \<noteq> None) (g_strsplit file_text (CHR 0x0A)) of
        None \<Rightarrow> None
      | Some l \<Rightarrow> parse_authinfo_line (Some l))"
    by (simp add: m_config_load_api_key_def load_api_key_lines_find)
  moreover have "(\<forall>l \<in> set (g_strsplit file_text (CHR 0x0A)). parse_authinfo_line (Some l) = None) \<longrightarrow>
      m_config_load_api_key (Some file_text) = None"
    by (simp add: m_config_load_api_key_def load_api_key_lines_none)
  moreover have "length (g_strsplit short (CHR '' '')) < 6 \<longrightarrow>
      load_api_key_lines (short # ls) = load_api_key_lines ls"
    by (simp add: parse_authinfo_line_short)
  ultimately show ?thesis
    using parse_authinfo_line_iff [of line v] load_api_key_single_line [of key]
    by blast
qed

theorem load_api_key_first_match_witness:
  "m_config_load_api_key
     (Some (''# keys'' @ [CHR 0x0A] @
            ''machine api.openai.com login apikey'' @ [CHR 0x0A] @
            ''machine api.openai.com login apikey password XYZ123'' @ [CHR 0x0A] @
            ''machine api.openai.com login apikey password OTHER'' @ [CHR 0x0A])) = Some ''XYZ123'' \<and>
   m_config_load_api_key (Some ''machine api.openai.com login apikey password XYZ123'') = Some ''XYZ123'' \<and>
   m_config_load_api_key (Some (''machine example.org login me password pw'' @ [CHR 0x0A])) = None \<and>
   load_api_key_lines [''machine api.openai.com login apikey'', ''k''] = load_api_key_lines [''k'']"
  using load_api_key_first_match
    [of "''machine example.org login me password pw'' @ [CHR 0x0A]"
        "''machine api.openai.com login apikey password XYZ123''" "''XYZ123''"
        "''machine api.openai.com login apikey''" "[''k'']" "''XYZ123''"]
  by (simp add: m_config_load_api_key_def g_strsplit_def parse_authinfo_line_def)

text \<open>
  C3 as stated fails: a line of seven tokens is not the exact six-token pattern, and
  its sixth token is returned all the same.
\<close>

theorem longer_line_is_recognised:
  "\<not> exact_six_token_line ''machine api.openai.com login apikey password K extra'' \<and>
   m_config_load_api_key (Some ''machine api.openai.com login apikey password K extra'') = Some ''K''"
  by (simp add: exact_six_token_line_def m_config_load_api_key_def g_strsplit_def
      parse_authinfo_line_def)

text \<open>
  C4. Saving a model succeeds exactly when the directory can be made and the file
  can be written. When it succeeds, the file holds an object whose \<^verbatim>\<open>model\<close> is
  the model saved, so that loading gives that model back; and where the file held
  an object before, every key other than \<^verbatim>\<open>model\<close> has the node it had, the other
  keys are in the order they had, and \<^verbatim>\<open>model\<close> comes last.
\<close>

theorem save_then_load_model:
  "fst (m_config_save_model env (Some m) file) = (mkdir_ok env \<and> write_ok env) \<and>
   (mkdir_ok env \<and> write_ok env \<longrightarrow>
      (\<exists>obj'. m_config_save_model env (Some m) file = (True, Parsed (Some (JObject obj'))) \<and>
         m_config_load_model (Parsed (Some (JObject obj'))) = m \<and>
         json_object_get_member obj' ''model'' = Some (JString m) \<and>
         (\<forall>obj. file = Parsed (Some (JObject obj)) \<longrightarrow>
            (\<forall>k. k \<noteq> ''model'' \<longrightarrow>
               json_object_get_member obj' k = json_object_get_member obj k) \<and>
            json_object_get_members obj' =
              filter (\<lambda>k. k \<noteq> ''model'') (json_object_get_members obj) @ [''model''])))"
proof -
  let ?old = "case file of Parsed (Some (JObject obj)) \<Rightarrow> obj | _ \<Rightarrow> []"
  let ?new = "filter (\<lambda>kv. fst kv \<noteq> ''model'') ?old @ [(''model'', JString m)]"
  let ?out = "build_members ?new (json_object_get_members ?new)"
  have ok: "fst (m_config_save_model env (Some m) file) = (mkdir_ok env \<and> write_ok env)"
    by (simp add: m_config_save_model_def Let_def)
  have names: "json_object_get_members ?out = json_object_get_members ?new"
    by (rule build_members_self_names)
  have look: "\<And>k. json_object_get_member ?out k = json_object_get_member ?new k"
    by (rule build_members_self_lookup)
  have m1: "json_object_has_member ?out ''model''"
    unfolding json_object_has_member_def names by (simp add: json_object_get_members_def)
  have "map_of (filter (\<lambda>kv. fst kv \<noteq> ''model'') ?old) ''model'' = None"
    by (auto simp: map_of_eq_None_iff)
  then have new_model: "json_object_get_member ?new ''model'' = Some (JString m)"
    by (simp add: json_object_get_member_def map_add_def)
  have m2: "json_object_get_member ?out ''model'' = Some (JString m)"
    by (rule trans [OF look new_model])
  have load: "m_config_load_model (Parsed (Some (JObject ?out))) = m"
    by (simp add: m_config_load_model_def m1 json_object_get_string_member_def m2)
  have keep: "json_object_get_member ?out k = json_object_get_member ?old k"
    if "k \<noteq> ''model''" for k
  proof -
    have "json_object_get_member ?new k = json_object_get_member ?old k"
      using that
      by (simp add: json_object_get_member_def map_add_def map_of_filter_other
          split: option.splits)
    with look [of k] show ?thesis by (rule trans)
  qed
  have new_names: "json_object_get_members ?new =
               filter (\<lambda>k. k \<noteq> ''model'') (json_object_get_members ?old) @ [''model'']"
    by (simp add: json_object_get_members_def filter_map comp_def)
  have order: "json_object_get_members ?out =
               filter (\<lambda>k. k \<noteq> ''model'') (json_object_get_members ?old) @ [''model'']"
    by (rule trans [OF names new_names])
  have written: "m_config_save_model env (Some m) file = (True, Parsed (Some (JObject ?out)))"
    if "mkdir_ok env" "write_ok env"
  proof -
    from that ok have "fst (m_config_save_model env (Some m) file)" by simp
    then obtain file' where "m_config_save_model env (Some m) file = (True, file')"
      by (cases "m_config_save_model env (Some m) file") simp
    from this save_model_written [OF this] show ?thesis by simp
  qed
  have "\<exists>obj'. m_config_save_model env (Some m) file = (True, Parsed (Some (JObject obj'))) \<and>
         m_config_load_model (Parsed (Some (JObject obj'))) = m \<and>
         json_object_get_member obj' ''model'' = Some (JString m) \<and>
         (\<forall>obj. file = Parsed (Some (JObject obj)) \<longrightarrow>
            (\<forall>k. k \<noteq> ''model'' \<longrightarrow>
               json_object_get_member obj' k = json_object_get_member obj k) \<and>
            json_object_get_members obj' =
              filter (\<lambda>k. k \<noteq> ''model'') (json_object_get_members obj) @ [''model''])"
    if "mkdir_ok env" "write_ok env"
  proof (intro exI conjI allI impI)
    show "m_config_save_model env (Some m) file = (True, Parsed (Some (JObject ?out)))"
      using written that by simp
    show "m_config_load_model (Parsed (Some (JObject ?out))) = m" by (rule load)
    show "json_object_get_member ?out ''model'' = Some (JString m)" by (rule m2)
  next
    fix obj k assume "file = Parsed (Some (JObject obj))" "k \<noteq> ''model''"
    then show "json_object_get_member ?out k = json_object_get_member obj k"
      using keep [of k] by simp
  next
    fix obj assume "file = Parsed (Some (JObject obj))"
    then show "json_object_get_members ?out =
        filter (\<lambda>k. k \<noteq> ''model'') (json_object_get_members obj) @ [''model'']"
      using order by simp
  qed
  with ok show ?thesis by blast
qed

theorem save_then_load_model_witness:
  "m_config_save_model \<lparr>mkdir_ok = True, write_ok = True\<rparr> (Some ''gpt-4o-mini'')
     (Parsed (Some (JObject [(''model'', JString ''gpt-4o''), (''theme'', JString ''dark'')])))
   = (True, Parsed (Some (JObject [(''theme'', JString ''dark''), (''model'', JString ''gpt-4o-mini'')])))
   \<and> m_config_load_model
       (snd (m_config_save_model \<lparr>mkdir_ok = True, write_ok = True\<rparr> (Some ''gpt-4o-mini'')
          (Parsed (Some (JObject [(''model'', JString ''gpt-4o''), (''theme'', JString ''dark'')])))))
     = ''gpt-4o-mini''
   \<and> \<not> fst (m_config_save_model \<lparr>mkdir_ok = True, write_ok = False\<rparr> (Some ''gpt-4o-mini'')
          (Parsed (Some (JObject [(''model'', JString ''gpt-4o''), (''theme'', JString ''dark'')]))))"
proof -
  let ?file = "Parsed (Some (JObject [(''model'', JString ''gpt-4o''), (''theme'', JString ''dark'')]))"
  have saved:
    "m_config_save_model \<lparr>mkdir_ok = True, write_ok = True\<rparr> (Some ''gpt-4o-mini'') ?file
     = (True, Parsed (Some (JObject [(''theme'', JString ''dark''), (''model'', JString ''gpt-4o-mini'')])))"
    unfolding m_config_save_model_def Let_def update_model_eq
    by (simp add: json_object_get_members_def json_object_get_member_def)
  have loaded:
    "m_config_load_model
       (snd (m_config_save_model \<lparr>mkdir_ok = True, write_ok = True\<rparr> (Some ''gpt-4o-mini'') ?file))
     = ''gpt-4o-mini''"
    using save_then_load_model
      [of "\<lparr>mkdir_ok = True, write_ok = True\<rparr>" "''gpt-4o-mini''" ?file]
    by auto
  have failed:
    "\<not> fst (m_config_save_model \<lparr>mkdir_ok = True, write_ok = False\<rparr> (Some ''gpt-4o-mini'') ?file)"
    using save_then_load_model
      [of "\<lparr>mkdir_ok = True, write_ok = False\<rparr>" "''gpt-4o-mini''" ?file]
    by simp
  show ?thesis using saved loaded failed by simp
qed

text \<open>
  C8, as amended. Loading the prompts always returns an array and raises nothing: the
  empty array when the file cannot be read or parsed, when the document is empty and
  when its root is not an array; the root's elements as they are, none skipped, when
  the root is an array.
\<close>

theorem load_prompts_never_fails:
  "m_config_load_prompts Unreadable = [] \<and>
   m_config_load_prompts (Parsed None) = [] \<and>
   m_config_load_prompts (Parsed (Some JNull)) = [] \<and>
   m_config_load_prompts (Parsed (Some (JBool b))) = [] \<and>
   m_config_load_prompts (Parsed (Some (JNumber n))) = [] \<and>
   m_config_load_prompts (Parsed (Some (JString s))) = [] \<and>
   m_config_load_prompts (Parsed (Some (JObject obj))) = [] \<and>
   m_config_load_prompts (Parsed (Some (JArray elems))) = elems"
  by (simp add: m_config_load_prompts_def)

theorem load_prompts_never_fails_witness:
  "m_config_load_prompts (Parsed (Some (JObject [(''id'', JString ''fix'')]))) = [] \<and>
   m_config_load_prompts
     (Parsed (Some (JArray [JObject [(''id'', JString ''fix''), (''text'', JString ''Fix it'')]]))) =
     [JObject [(''id'', JString ''fix''), (''text'', JString ''Fix it'')]]"
  using load_prompts_never_fails
    [of True 0 "[]" "[(''id'', JString ''fix'')]"
        "[JObject [(''id'', JString ''fix''), (''text'', JString ''Fix it'')]]"]
  by simp

text \<open>
  C8 as stated fails: an entry that is not a prompt object is not skipped, it is
  returned with the rest.
\<close>

theorem malformed_entry_is_kept:
  "\<not> prompt_entry_well_formed (JNumber 42) \<and>
   m_config_load_prompts
     (Parsed (Some (JArray [JNumber 42, JObject [(''id'', JString ''fix''), (''text'', JString ''Fix it'')]]))) =
     [JNumber 42, JObject [(''id'', JString ''fix''), (''text'', JString ''Fix it'')]]"
  by (simp add: prompt_entry_well_formed_def m_config_load_prompts_def)

section \<open>Properties of m-ui-actions.c\<close>

lemma length_validate_entries [simp]: "length (validate_entries es n) = length es"
  by (simp add: validate_entries_def)

lemma activate_validate_entry [simp]: "activate (validate_entry i e) = activate e"
  by (simp add: validate_entry_def)

lemma map_activate_validate_entries:
  "map activate (validate_entries es n) = map activate es"
proof -
  have "map activate (validate_entries es n) = map (\<lambda>ie. activate (snd ie)) (enumerate 0 es)"
    by (simp add: validate_entries_def split_beta)
  also have "\<dots> = map activate (map snd (enumerate 0 es))"
    by (simp only: map_map comp_def)
  finally show ?thesis by (simp only: map_snd_enumerate)
qed

lemma unat_length32: "n < 2 ^ 32 \<Longrightarrow> unat (of_nat n :: 32 word) = n"
  by (simp add: unat_of_nat)

subsection \<open>Claims\<close>

text \<open>
  C1, as amended. For a prompt array of N entries, N at least 1, and M models (with
  N + M + 3 below 2^32, the range of the counters), the entries built are
  N + M + 3: one per prompt, the container menu, the trigger action, the model
  submenu, and one per model, in this order. Malformed prompt entries count like
  the others.
\<close>

theorem build_action_entries_count:
  assumes "1 \<le> length ps"
    and "length ps + length (ctx_models ctx) + 3 < 2 ^ 32"
  shows "\<exists>r. m_ui_build_action_entries (Some ps) ctx = Some r \<and>
           length (entries r) = length ps + length (ctx_models ctx) + 3 \<and>
           unat (total_count r) = length ps + length (ctx_models ctx) + 3 \<and>
           unat (count r) = length ps \<and>
           map activate (entries r) =
             replicate (length ps) (Some action_proofread_cb) @
             [None, Some action_dropdown_cb, None] @
             replicate (length (ctx_models ctx)) (Some action_select_model_cb)"
proof -
  let ?N = "length ps" and ?M = "length (ctx_models ctx)"
  have N: "unat (json_array_get_length ps) = ?N"
    using assms(2) by (simp add: json_array_get_length_def unat_length32)
  have M: "unat (g_list_length (ctx_models ctx)) = ?M"
    using assms(2) by (simp add: g_list_length_def unat_length32)
  have nz: "json_array_get_length ps \<noteq> 0"
    using N assms(1) by (metis not_one_le_zero unat_0)
  have tot: "unat (json_array_get_length ps + 3 + g_list_length (ctx_models ctx)) = ?N + ?M + 3"
  proof -
    have "json_array_get_length ps + 3 + g_list_length (ctx_models ctx)
            = (of_nat (?N + ?M + 3) :: 32 word)"
      by (simp add: json_array_get_length_def g_list_length_def)
    then show ?thesis using assms(2) by (simp only: unat_length32)
  qed
  have act1: "map (\<lambda>i. activate (create_prompt_entry (json_array_get_object_element ps i))) [0..<?N]
                = replicate ?N (Some action_proofread_cb)"
    by (simp add: create_prompt_entry_def Let_def map_replicate_const)
  have act2: "map (\<lambda>model_id. activate (create_model_entry model_id
                   (g_strcmp0 (Some model_id) (ctx_model ctx)))) (ctx_models ctx)
                = replicate ?M (Some action_select_model_cb)"
    by (simp add: create_model_entry_def map_replicate_const)
  show ?thesis
    using nz
    by (simp add: m_ui_build_action_entries_def Let_def N M tot map_activate_validate_entries
        comp_def act1 act2 create_menu_entry_def create_dropdown_entry_def
        create_model_menu_entry_def)
qed

theorem build_action_entries_count_witness:
  "\<exists>r. m_ui_build_action_entries
          (Some [JObject [(''name'', JString ''fix''), (''prompt'', JString ''Fix it'')]])
          sample_action_context = Some r \<and>
       length (entries r) = 6 \<and> unat (total_count r) = 6 \<and>
       map activate (entries r) =
         [Some action_proofread_cb, None, Some action_dropdown_cb, None,
          Some action_select_model_cb, Some action_select_model_cb]"
  using build_action_entries_count
    [of "[JObject [(''name'', JString ''fix''), (''prompt'', JString ''Fix it'')]]"
        sample_action_context]
  by (auto simp: sample_action_context_def)

text \<open>
  C1 as stated fails: one prompt and no model give four entries, not 1 + 0 + 2, and
  no prompt gives no entry set at all.
\<close>

theorem build_action_entries_count_counterexample:
  "map_option (length \<circ> entries)
     (m_ui_build_action_entries (Some [JObject [(''name'', JString ''fix'')]])
        (sample_action_context\<lparr>ctx_models := []\<rparr>)) = Some 4 \<and>
   (4 :: nat) \<noteq> 1 + 0 + 2 \<and>
   m_ui_build_action_entries (Some []) (sample_action_context\<lparr>ctx_models := []\<rparr>) = None"
  by (simp add: m_ui_build_action_entries_def json_array_get_length_def g_list_length_def
      sample_action_context_def)

text \<open>
  C10. Without a prompt array, and with an empty one, building the action entries
  gives NULL whatever the context holds, and adding the UI registers no action:
  not for a model, not the menus, not the trigger.
\<close>

theorem no_prompts_no_actions:
  "m_ui_build_action_entries None ctx = None \<and>
   m_ui_build_action_entries (Some []) ctx = None \<and>
   registered (snd (m_msg_composer_extension_add_ui (priv\<lparr>priv_prompts := None\<rparr>) ui)) =
     registered ui \<and>
   registered (snd (m_msg_composer_extension_add_ui (priv\<lparr>priv_prompts := Some []\<rparr>) ui)) =
     registered ui"
  by (simp add: m_ui_build_action_entries_def json_array_get_length_def
      m_msg_composer_extension_add_ui_def validate_configuration_def)

theorem no_prompts_no_actions_witness:
  "m_ui_build_action_entries (Some []) sample_action_context = None \<and>
   registered (snd (m_msg_composer_extension_add_ui
     \<lparr>priv_prompts = Some [], chatgpt_api_key = Some ''sk-1'', priv_model = Some ''gpt-4o'',
      priv_models = [''gpt-4o'', ''gpt-4o-mini''], ui_context = None\<rparr>
     \<lparr>g_action_context = None, registered = []\<rparr>)) = []"
  using no_prompts_no_actions
    [of sample_action_context
        "\<lparr>priv_prompts = Some [], chatgpt_api_key = Some ''sk-1'', priv_model = Some ''gpt-4o'',
          priv_models = [''gpt-4o'', ''gpt-4o-mini''], ui_context = None\<rparr>"
        "\<lparr>g_action_context = None, registered = []\<rparr>"]
  by simp

section \<open>Properties of m-proofreader.c\<close>

subsection \<open>What each step does\<close>

lemma clear_world:
  "fst (proofreader_wait_indicator_clear (w, c)) =
     w\<lparr>timeouts := (if wait_timeout_id c = 0 then timeouts w
                     else filter (\<lambda>s. fst s \<noteq> wait_timeout_id c) (timeouts w)),
       widgets := (case wait_dialog c of None \<Rightarrow> widgets w | Some d \<Rightarrow> removeAll d (widgets w)),
       trace := trace w @ clear_events c\<rparr>"
  by (simp add: proofreader_wait_indicator_clear_def clear_events_def g_source_remove_def
      gtk_widget_destroy_def split: option.splits)

lemma clear_context:
  "snd (proofreader_wait_indicator_clear (w, c)) = c\<lparr>wait_dialog := None, wait_timeout_id := 0\<rparr>"
  by (simp add: proofreader_wait_indicator_clear_def split: option.splits)

lemma clear_events_cleared [simp]:
  "clear_events (c\<lparr>wait_dialog := None, wait_timeout_id := 0\<rparr>) = []"
  by (simp add: clear_events_def)

lemma context_free_world:
  "m_proofreader_context_free (Some c) w =
     w\<lparr>timeouts := (if wait_timeout_id c = 0 then timeouts w
                     else filter (\<lambda>s. fst s \<noteq> wait_timeout_id c) (timeouts w)),
       widgets := (case wait_dialog c of None \<Rightarrow> widgets w | Some d \<Rightarrow> removeAll d (widgets w)),
       trace := trace w @ clear_events c @ [ContextFree]\<rparr>"
  by (simp add: m_proofreader_context_free_def clear_world emit_def)

lemma completed_world:
  "proofread_task_completed result (w, c) =
     w\<lparr>timeouts := (if wait_timeout_id c = 0 then timeouts w
                     else filter (\<lambda>s. fst s \<noteq> wait_timeout_id c) (timeouts w)),
       widgets := (case wait_dialog c of None \<Rightarrow> widgets w | Some d \<Rightarrow> removeAll d (widgets w)),
       trace := trace w @ clear_events c @ [outcome_event result, ContextFree]\<rparr>"
  by (simp add: proofread_task_completed_def m_proofreader_context_free_def split_beta
      clear_world clear_context emit_def show_error_alert_def show_no_response_dialog_def
      insert_proofread_content_def split: task_result.splits option.splits)

lemma emitted_append [simp]: "emitted w (w'\<lparr>trace := trace w @ es\<rparr>) = es"
  by (simp add: emitted_def)

lemma outcome_event_kind [simp]:
  "is_outcome (outcome_event result)"
  "\<not> is_release (outcome_event result)"
  "\<not> is_wait_show (outcome_event result)"
  "\<not> is_timeout_add (outcome_event result)"
  "outcome_event result \<noteq> SourceRemove sid"
  "outcome_event result \<noteq> SourceDestroyed sid"
  "SourceRemove sid \<noteq> outcome_event result"
  "SourceDestroyed sid \<noteq> outcome_event result"
  by (cases result rule: outcome_event.cases; simp)+

lemma teardown_faults_outcome [simp]:
  "teardown_faults srcs dlgs (outcome_event result # es) = teardown_faults srcs dlgs es"
  by (cases result rule: outcome_event.cases) simp_all

lemma handles_left_outcome [simp]:
  "handles_left srcs dlgs (outcome_event result # es) = handles_left srcs dlgs es"
  by (cases result rule: outcome_event.cases) simp_all

lemma outcome_over_wait_dialog_outcome [simp]:
  "outcome_over_wait_dialog open_dialogs (outcome_event result # es) =
     (open_dialogs \<noteq> [] \<or> outcome_over_wait_dialog open_dialogs es)"
  by (cases result rule: outcome_event.cases) simp_all

lemma start_ok:
  "m_proofreader_start (Some ed) (Some p) (Some ps) (Some k) m cmp w =
     (w\<lparr>trace := trace w @ [GetContent ed]\<rparr>,
      Some (m_proofreader_context_new ed (Some p) ps (Some k) m cmp))"
  by (simp add: m_proofreader_start_def emit_def)

lemma start_aborted:
  "e = None \<or> p = None \<or> ps = None \<or> k = None \<Longrightarrow>
   m_proofreader_start e p ps k m cmp w = (w, None)"
  by (auto simp: m_proofreader_start_def split: option.splits)

lemma schedule_fresh:
  "wait_timeout_id c = 0 \<Longrightarrow> wait_dialog c = None \<Longrightarrow>
   proofreader_wait_indicator_schedule (w, c) =
     (w\<lparr>next_id := Suc (next_id w),
        timeouts := timeouts w @ [(Suc (next_id w), 800)],
        trace := trace w @ [TimeoutAdd 800 (Suc (next_id w))]\<rparr>,
      c\<lparr>wait_timeout_id := Suc (next_id w)\<rparr>)"
  by (simp add: proofreader_wait_indicator_schedule_def g_timeout_add_def Let_def
      PROOFREAD_WAIT_DELAY_MS_def)

lemma content_ready_text:
  "wait_timeout_id c = 0 \<Longrightarrow> wait_dialog c = None \<Longrightarrow>
   m_proofreader_content_ready_cb (ContentHash (Some text)) (w, c) =
     (w\<lparr>next_id := Suc (next_id w),
        timeouts := timeouts w @ [(Suc (next_id w), 800)],
        trace := trace w @ [TimeoutAdd 800 (Suc (next_id w)), RunInThread text]\<rparr>,
      Some (c\<lparr>wait_timeout_id := Suc (next_id w)\<rparr>, text))"
  by (simp add: m_proofreader_content_ready_cb_def start_proofread_task_def schedule_fresh
      emit_def)

lemma content_ready_no_text:
  "(\<forall>text. result \<noteq> ContentHash (Some text)) \<Longrightarrow>
   m_proofreader_content_ready_cb result (w, c) = (m_proofreader_context_free (Some c) w, None)"
  by (cases result) (auto simp: m_proofreader_content_ready_cb_def split: option.splits)

lemma task_thread:
  "proofread_task_thread c text r w =
     (task_result_of r,
      w\<lparr>trace := trace w @
         [ChatgptProofread text (prompt_id c) (prompts c) (api_key c) (model c)]\<rparr>)"
  by (simp add: proofread_task_thread_def task_result_of_def emit_def split: option.splits)

lemma show_one_shot:
  "fst (proofreader_wait_indicator_show wc) = G_SOURCE_REMOVE"
  by (simp add: proofreader_wait_indicator_show_def Let_def split_beta split: option.splits)

lemma dispatch_window:
  "sid \<in> fst ` set (timeouts w) \<Longrightarrow> composer c = Some cw \<Longrightarrow> cw \<in> set (windows w) \<Longrightarrow>
   timeout_dispatch sid (w, c) =
     (w\<lparr>next_id := Suc (next_id w),
        timeouts := filter (\<lambda>s. fst s \<noteq> sid) (timeouts w),
        widgets := widgets w @ [Suc (next_id w)],
        trace := trace w @
          [DialogShow (Suc (next_id w)) (wait_message (model c)), SourceDestroyed sid]\<rparr>,
      c\<lparr>wait_dialog := Some (Suc (next_id w)), wait_timeout_id := 0\<rparr>)"
  by (simp add: timeout_dispatch_def proofreader_wait_indicator_show_def gtk_dialog_show_def
      G_SOURCE_REMOVE_def GTK_IS_WINDOW_def wait_message_def printf_s_def Let_def emit_def)

lemma dispatch_no_window:
  "sid \<in> fst ` set (timeouts w) \<Longrightarrow> \<not> (\<exists>cw. composer c = Some cw \<and> cw \<in> set (windows w)) \<Longrightarrow>
   timeout_dispatch sid (w, c) =
     (w\<lparr>timeouts := filter (\<lambda>s. fst s \<noteq> sid) (timeouts w),
        trace := trace w @ [SourceDestroyed sid]\<rparr>, c)"
  by (cases "composer c")
     (simp_all add: timeout_dispatch_def proofreader_wait_indicator_show_def
        G_SOURCE_REMOVE_def GTK_IS_WINDOW_def Let_def emit_def)

lemma fresh_context [simp]:
  "wait_timeout_id (m_proofreader_context_new ed p ps k m cmp) = 0"
  "wait_dialog (m_proofreader_context_new ed p ps k m cmp) = None"
  "composer (m_proofreader_context_new ed p ps k m cmp) = cmp"
  "model (m_proofreader_context_new ed p ps k m cmp) = m"
  "prompt_id (m_proofreader_context_new ed p ps k m cmp) = p"
  "prompts (m_proofreader_context_new ed p ps k m cmp) = ps"
  "api_key (m_proofreader_context_new ed p ps k m cmp) = k"
  by (simp_all add: m_proofreader_context_new_def)

lemma fresh_handles:
  assumes "handles_below w"
  shows "Suc (next_id w) \<notin> fst ` set (timeouts w)"
    and "Suc (next_id w) \<notin> set (map fst (timeouts w))"
    and "Suc (Suc (next_id w)) \<notin> set (widgets w)"
    and "filter (\<lambda>s. fst s \<noteq> Suc (next_id w)) (timeouts w) = timeouts w"
    and "removeAll (Suc (Suc (next_id w))) (widgets w) = widgets w"
    and "removeAll (Suc (next_id w)) (map fst (timeouts w)) = map fst (timeouts w)"
    and "map_of (timeouts w) (Suc (next_id w)) = None"
proof -
  show a: "Suc (next_id w) \<notin> fst ` set (timeouts w)"
    using assms by (auto simp: handles_below_def list_all_iff)
  then show b: "Suc (next_id w) \<notin> set (map fst (timeouts w))" by simp
  show c: "Suc (Suc (next_id w)) \<notin> set (widgets w)"
    using assms by (auto simp: handles_below_def list_all_iff)
  show "filter (\<lambda>s. fst s \<noteq> Suc (next_id w)) (timeouts w) = timeouts w"
    using a by (force simp: filter_id_conv)
  show "removeAll (Suc (Suc (next_id w))) (widgets w) = widgets w"
    using c by (simp add: removeAll_id)
  show "removeAll (Suc (next_id w)) (map fst (timeouts w)) = map fst (timeouts w)"
    using b by (rule removeAll_id)
  show "map_of (timeouts w) (Suc (next_id w)) = None"
    using a by (simp add: map_of_eq_None_iff)
qed

lemma invocation_aborted:
  "e = None \<or> p = None \<or> ps = None \<or> k = None \<Longrightarrow> invocation e p ps k m cmp sc w = w"
  by (simp add: invocation_def start_aborted)

lemma invocation_no_content:
  "(\<forall>text. content sc \<noteq> ContentHash (Some text)) \<Longrightarrow>
   invocation (Some ed) (Some p) (Some ps) (Some k) m cmp sc w =
     w\<lparr>trace := trace w @ [GetContent ed, ContextFree]\<rparr>"
  by (simp add: invocation_def start_ok content_ready_no_text context_free_world clear_events_def)

lemma invocation_fast:
  "handles_below w \<Longrightarrow> content sc = ContentHash (Some text) \<Longrightarrow> elapsed_ms sc < 800 \<Longrightarrow>
   invocation (Some ed) (Some p) (Some ps) (Some k) m cmp sc w =
     w\<lparr>next_id := Suc (next_id w),
       trace := trace w @
         [GetContent ed, TimeoutAdd 800 (Suc (next_id w)), RunInThread text,
          ChatgptProofread text (Some p) ps (Some k) m,
          SourceRemove (Suc (next_id w)),
          outcome_event (task_result_of (reply sc)), ContextFree]\<rparr>"
  by (simp add: invocation_def start_ok content_ready_text task_thread completed_world
      clear_events_def map_add_def fresh_handles)

lemma invocation_slow_window:
  "handles_below w \<Longrightarrow> content sc = ContentHash (Some text) \<Longrightarrow> \<not> elapsed_ms sc < 800 \<Longrightarrow>
   cmp = Some cw \<Longrightarrow> cw \<in> set (windows w) \<Longrightarrow>
   invocation (Some ed) (Some p) (Some ps) (Some k) m cmp sc w =
     w\<lparr>next_id := Suc (Suc (next_id w)),
       trace := trace w @
         [GetContent ed, TimeoutAdd 800 (Suc (next_id w)), RunInThread text,
          ChatgptProofread text (Some p) ps (Some k) m,
          DialogShow (Suc (Suc (next_id w))) (wait_message m),
          SourceDestroyed (Suc (next_id w)),
          WidgetDestroy (Suc (Suc (next_id w))),
          outcome_event (task_result_of (reply sc)), ContextFree]\<rparr>"
  by (simp add: invocation_def start_ok content_ready_text task_thread dispatch_window
      completed_world clear_events_def map_add_def fresh_handles)

lemma invocation_slow_no_window:
  "handles_below w \<Longrightarrow> content sc = ContentHash (Some text) \<Longrightarrow> \<not> elapsed_ms sc < 800 \<Longrightarrow>
   \<not> (\<exists>cw. cmp = Some cw \<and> cw \<in> set (windows w)) \<Longrightarrow>
   invocation (Some ed) (Some p) (Some ps) (Some k) m cmp sc w =
     w\<lparr>next_id := Suc (next_id w),
       trace := trace w @
         [GetContent ed, TimeoutAdd 800 (Suc (next_id w)), RunInThread text,
          ChatgptProofread text (Some p) ps (Some k) m,
          SourceDestroyed (Suc (next_id w)),
          SourceRemove (Suc (next_id w)),
          outcome_event (task_result_of (reply sc)), ContextFree]\<rparr>"
  by (simp add: invocation_def start_ok content_ready_text task_thread dispatch_no_window
      completed_world clear_events_def map_add_def fresh_handles)

subsection \<open>Claims\<close>

text \<open>
  C5. The completion of a remote call that set an error submits one alert and
  inserts nothing; the completion of a call that returned a non-empty text inserts
  once, that text, and submits no alert.
\<close>

theorem completion_alert_or_insert:
  "(reply_error r = Some message \<longrightarrow>
      length (filter is_alert
        (emitted w (proofread_task_completed (fst (proofread_task_thread c body r w0)) (w, c)))) = 1 \<and>
      length (filter is_insert
        (emitted w (proofread_task_completed (fst (proofread_task_thread c body r w0)) (w, c)))) = 0) \<and>
   (reply_error r = None \<and> reply_text r = Some t \<and> t \<noteq> [] \<longrightarrow>
      filter is_insert
        (emitted w (proofread_task_completed (fst (proofread_task_thread c body r w0)) (w, c))) =
        [InsertContent t] \<and>
      length (filter is_alert
        (emitted w (proofread_task_completed (fst (proofread_task_thread c body r w0)) (w, c)))) = 0)"
  by (auto simp: task_thread task_result_of_def completed_world clear_events_def
      split: option.splits)

theorem completion_alert_or_insert_witness:
  "length (filter is_alert (emitted idle_world (proofread_task_completed
      (fst (proofread_task_thread sample_context ''helo''
              \<lparr>reply_text = None, reply_error = Some ''HTTP 401''\<rparr> idle_world))
      (idle_world, sample_context)))) = 1 \<and>
   filter is_insert (emitted idle_world (proofread_task_completed
      (fst (proofread_task_thread sample_context ''helo''
              \<lparr>reply_text = Some ''Hello'', reply_error = None\<rparr> idle_world))
      (idle_world, sample_context))) = [InsertContent ''Hello'']"
  using completion_alert_or_insert
      [of "\<lparr>reply_text = None, reply_error = Some ''HTTP 401''\<rparr>" "''HTTP 401''"
          idle_world sample_context "''helo''" idle_world "[]"]
    completion_alert_or_insert
      [of "\<lparr>reply_text = Some ''Hello'', reply_error = None\<rparr>" "[]"
          idle_world sample_context "''helo''" idle_world "''Hello''"]
  by simp



text \<open>
  C9. Dispatching arms one timeout, of 800 ms, whose callback never asks to be
  called again. The main loop compares the time the request takes with the
  interval the source was added with: a request that completes in under 800 ms has
  its timeout removed before it fires and the wait indicator is never shown; a
  request that takes more than 800 ms has the wait indicator shown, on its composer
  window, before the outcome is delivered.
\<close>

theorem wait_indicator_timing:
  assumes "handles_below w" and "content sc = ContentHash (Some body)"
  shows "PROOFREAD_WAIT_DELAY_MS = 800 \<and>
     (\<exists>rest. invocation_events (Some ed) (Some p) (Some ps) (Some k) m cmp sc w =
        GetContent ed # TimeoutAdd PROOFREAD_WAIT_DELAY_MS (Suc (next_id w)) # RunInThread body # rest \<and>
        filter is_timeout_add rest = []) \<and>
     (elapsed_ms sc < 800 \<longrightarrow>
        \<not> list_ex is_wait_show (invocation_events (Some ed) (Some p) (Some ps) (Some k) m cmp sc w) \<and>
        SourceRemove (Suc (next_id w)) \<in>
          set (invocation_events (Some ed) (Some p) (Some ps) (Some k) m cmp sc w) \<and>
        SourceDestroyed (Suc (next_id w)) \<notin>
          set (invocation_events (Some ed) (Some p) (Some ps) (Some k) m cmp sc w)) \<and>
     (800 < elapsed_ms sc \<and> cmp = Some cw \<and> cw \<in> set (windows w) \<longrightarrow>
        list_ex is_wait_show
          (takeWhile (\<lambda>e. \<not> is_outcome e)
             (invocation_events (Some ed) (Some p) (Some ps) (Some k) m cmp sc w))) \<and>
     fst (proofreader_wait_indicator_show wc) = G_SOURCE_REMOVE"
proof -
  let ?i = "Suc (next_id w)" and ?d = "Suc (Suc (next_id w))"
  let ?tr = "invocation_events (Some ed) (Some p) (Some ps) (Some k) m cmp sc w"
  let ?out = "outcome_event (task_result_of (reply sc))"
  have fast: "?tr = [GetContent ed, TimeoutAdd 800 ?i, RunInThread body,
          ChatgptProofread body (Some p) ps (Some k) m, SourceRemove ?i, ?out, ContextFree]"
    if "elapsed_ms sc < 800"
    by (simp add: invocation_events_def invocation_fast [OF assms that])
  have slow_window: "?tr = [GetContent ed, TimeoutAdd 800 ?i, RunInThread body,
          ChatgptProofread body (Some p) ps (Some k) m,
          DialogShow ?d (wait_message m), SourceDestroyed ?i, WidgetDestroy ?d, ?out, ContextFree]"
    if "\<not> elapsed_ms sc < 800" "cmp = Some cw" "cw \<in> set (windows w)" for cw
    by (simp add: invocation_events_def invocation_slow_window [OF assms that])
  have slow_no_window: "?tr = [GetContent ed, TimeoutAdd 800 ?i, RunInThread body,
          ChatgptProofread body (Some p) ps (Some k) m,
          SourceDestroyed ?i, SourceRemove ?i, ?out, ContextFree]"
    if "\<not> elapsed_ms sc < 800" "\<not> (\<exists>cw. cmp = Some cw \<and> cw \<in> set (windows w))"
    by (simp add: invocation_events_def invocation_slow_no_window [OF assms that])
  have armed: "\<exists>rest. ?tr =
        GetContent ed # TimeoutAdd PROOFREAD_WAIT_DELAY_MS ?i # RunInThread body # rest \<and>
        filter is_timeout_add rest = []"
  proof (cases "elapsed_ms sc < 800")
    case True
    show ?thesis unfolding fast [OF True] by (simp add: PROOFREAD_WAIT_DELAY_MS_def)
  next
    case slow: False
    show ?thesis
    proof (cases "\<exists>cw. cmp = Some cw \<and> cw \<in> set (windows w)")
      case True
      then obtain cw where "cmp = Some cw" "cw \<in> set (windows w)" by blast
      from slow_window [OF slow this] show ?thesis
        by (simp add: PROOFREAD_WAIT_DELAY_MS_def)
    next
      case False
      from slow_no_window [OF slow this] show ?thesis
        by (simp add: PROOFREAD_WAIT_DELAY_MS_def)
    qed
  qed
  have under: "elapsed_ms sc < 800 \<longrightarrow>
        \<not> list_ex is_wait_show ?tr \<and> SourceRemove ?i \<in> set ?tr \<and> SourceDestroyed ?i \<notin> set ?tr"
    using fast by (auto simp: list_ex_iff)
  have over_window: "800 < elapsed_ms sc \<and> cmp = Some cw \<and> cw \<in> set (windows w) \<longrightarrow>
        list_ex is_wait_show (takeWhile (\<lambda>e. \<not> is_outcome e) ?tr)"
  proof
    assume h: "800 < elapsed_ms sc \<and> cmp = Some cw \<and> cw \<in> set (windows w)"
    then have "\<not> elapsed_ms sc < 800" by simp
    from slow_window [OF this] h show "list_ex is_wait_show (takeWhile (\<lambda>e. \<not> is_outcome e) ?tr)"
      by simp
  qed
  show ?thesis
    using armed under over_window show_one_shot [of wc]
    by (simp add: PROOFREAD_WAIT_DELAY_MS_def)
qed

theorem wait_indicator_timing_witness:
  "\<not> list_ex is_wait_show
      (invocation_events (Some 1) (Some ''ai-proofread-fix'') (Some []) (Some ''sk-1'') (Some ''gpt-4o'')
         (Some 7)
         \<lparr>content = ContentHash (Some ''helo''),
          reply = \<lparr>reply_text = Some ''Hello'', reply_error = None\<rparr>, elapsed_ms = 300\<rparr>
         idle_world) \<and>
   SourceRemove 1 \<in> set
      (invocation_events (Some 1) (Some ''ai-proofread-fix'') (Some []) (Some ''sk-1'') (Some ''gpt-4o'')
         (Some 7)
         \<lparr>content = ContentHash (Some ''helo''),
          reply = \<lparr>reply_text = Some ''Hello'', reply_error = None\<rparr>, elapsed_ms = 300\<rparr>
         idle_world) \<and>
   list_ex is_wait_show
     (takeWhile (\<lambda>e. \<not> is_outcome e)
        (invocation_events (Some 1) (Some ''ai-proofread-fix'') (Some []) (Some ''sk-1'') (Some ''gpt-4o'')
           (Some 7)
           \<lparr>content = ContentHash (Some ''helo''),
            reply = \<lparr>reply_text = Some ''Hello'', reply_error = None\<rparr>, elapsed_ms = 2000\<rparr>
           idle_world))"
proof -
  let ?quick = "\<lparr>content = ContentHash (Some ''helo''),
          reply = \<lparr>reply_text = Some ''Hello'', reply_error = None\<rparr>, elapsed_ms = 300\<rparr>"
  let ?long = "\<lparr>content = ContentHash (Some ''helo''),
          reply = \<lparr>reply_text = Some ''Hello'', reply_error = None\<rparr>, elapsed_ms = 2000\<rparr>"
  have hb: "handles_below idle_world"
    by (simp add: handles_below_def idle_world_def)
  have cq: "content ?quick = ContentHash (Some ''helo'')" by simp
  have cl: "content ?long = ContentHash (Some ''helo'')" by simp
  have under: "\<not> list_ex is_wait_show
      (invocation_events (Some 1) (Some ''ai-proofread-fix'') (Some []) (Some ''sk-1'') (Some ''gpt-4o'')
         (Some 7) ?quick idle_world) \<and>
    SourceRemove 1 \<in> set
      (invocation_events (Some 1) (Some ''ai-proofread-fix'') (Some []) (Some ''sk-1'') (Some ''gpt-4o'')
         (Some 7) ?quick idle_world)"
    using wait_indicator_timing [OF hb cq, where cmp = "Some 7",
        THEN conjunct2, THEN conjunct2, THEN conjunct1]
    by (simp add: idle_world_def)
  have over: "list_ex is_wait_show
     (takeWhile (\<lambda>e. \<not> is_outcome e)
        (invocation_events (Some 1) (Some ''ai-proofread-fix'') (Some []) (Some ''sk-1'') (Some ''gpt-4o'')
           (Some 7) ?long idle_world))"
    using wait_indicator_timing [OF hb cl, where cmp = "Some 7" and cw = 7,
        THEN conjunct2, THEN conjunct2, THEN conjunct2, THEN conjunct1]
    by (simp add: idle_world_def)
  show ?thesis using under over by simp
qed

text \<open>
  C2, as amended. When the editor returns no plain-text content (the entry is
  missing from the content hash), the callback hands nothing to a worker: it makes
  no remote call, arms no timer, frees the context and is done. For a whole
  invocation: no remote call is in its trace, whatever the arguments, and a started
  invocation consists of the content request and the release of the context.
\<close>

theorem no_content_no_remote_call:
  assumes "content sc = ContentHash None"
  shows "snd (m_proofreader_content_ready_cb (content sc) (w, c)) = None \<and>
         emitted w (fst (m_proofreader_content_ready_cb (content sc) (w, c))) =
           clear_events c @ [ContextFree] \<and>
         \<not> list_ex is_remote_call (emitted w (invocation e p ps k m cmp sc w)) \<and>
         emitted w (invocation (Some ed) (Some p') (Some ps') (Some k') m cmp sc w) =
           [GetContent ed, ContextFree]"
proof -
  have no: "\<forall>text. content sc \<noteq> ContentHash (Some text)"
    using assms by simp
  have a: "m_proofreader_content_ready_cb (content sc) (w, c) =
             (m_proofreader_context_free (Some c) w, None)"
    using content_ready_no_text [OF no] .
  have b: "emitted w (invocation (Some ed) (Some p') (Some ps') (Some k') m cmp sc w) =
             [GetContent ed, ContextFree]" for ed p' ps' k'
    by (simp add: invocation_no_content [OF no])
  have "\<not> list_ex is_remote_call (emitted w (invocation e p ps k m cmp sc w))"
  proof (cases "e = None \<or> p = None \<or> ps = None \<or> k = None")
    case True
    then show ?thesis by (simp add: invocation_aborted emitted_def)
  next
    case False
    then obtain ed p' ps' k' where "e = Some ed" "p = Some p'" "ps = Some ps'" "k = Some k'"
      by auto
    then show ?thesis by (simp add: b)
  qed
  then show ?thesis
    using b by (simp add: a context_free_world)
qed

theorem no_content_no_remote_call_witness:
  "trace (invocation (Some 1) (Some ''ai-proofread-fix'') (Some []) (Some ''sk-1'') (Some ''gpt-4o'')
       (Some 7)
       \<lparr>content = ContentHash None,
        reply = \<lparr>reply_text = Some ''Hello'', reply_error = None\<rparr>, elapsed_ms = 100\<rparr>
       \<lparr>next_id = 0, timeouts = [], widgets = [], windows = [7], trace = []\<rparr>)
   = [GetContent 1, ContextFree]"
  using no_content_no_remote_call
    [of "\<lparr>content = ContentHash None,
          reply = \<lparr>reply_text = Some ''Hello'', reply_error = None\<rparr>, elapsed_ms = 100\<rparr>"
        "\<lparr>next_id = 0, timeouts = [], widgets = [], windows = [7], trace = []\<rparr>"
        "m_proofreader_context_new 1 (Some ''ai-proofread-fix'') [] (Some ''sk-1'') (Some ''gpt-4o'') (Some 7)"
        "Some 1" "Some ''ai-proofread-fix''" "Some []" "Some ''sk-1''" "Some ''gpt-4o''" "Some 7"
        1 "''ai-proofread-fix''" "[]" "''sk-1''"]
  by (simp add: emitted_def)

text \<open>
  C2 as stated fails: when the text retrieved is the empty string, the callback
  dispatches it like any other text, and the remote call is made.
\<close>

theorem empty_text_is_dispatched:
  "trace (invocation (Some 1) (Some ''ai-proofread-fix'') (Some []) (Some ''sk-1'') (Some ''gpt-4o'')
       (Some 7)
       \<lparr>content = ContentHash (Some []),
        reply = \<lparr>reply_text = Some ''Hello'', reply_error = None\<rparr>, elapsed_ms = 100\<rparr>
       \<lparr>next_id = 0, timeouts = [], widgets = [], windows = [7], trace = []\<rparr>)
   = [GetContent 1, TimeoutAdd 800 1, RunInThread [],
      ChatgptProofread [] (Some ''ai-proofread-fix'') [] (Some ''sk-1'') (Some ''gpt-4o''),
      SourceRemove 1, InsertContent ''Hello'', ContextFree]"
  by (simp add: invocation_fast [of _ _ "[]"] task_result_of_def handles_below_def)

text \<open>
  C7. A call of \<^verbatim>\<open>m_proofreader_start\<close> without a prompt id, without the prompts
  or without an API key returns at once: no context is made, the host is left as it
  was (no content requested, nothing shown, no remote call), and the invocation ends
  there.
\<close>

theorem start_missing_argument_aborts:
  assumes "prompt_id' = None \<or> prompts' = None \<or> api_key' = None"
  shows "m_proofreader_start cnt_editor' prompt_id' prompts' api_key' model' composer' w = (w, None) \<and>
         invocation cnt_editor' prompt_id' prompts' api_key' model' composer' sc w = w \<and>
         emitted w (invocation cnt_editor' prompt_id' prompts' api_key' model' composer' sc w) = []"
  using assms by (auto simp: start_aborted invocation_aborted emitted_def)

theorem start_missing_argument_aborts_witness:
  "m_proofreader_start (Some 1) (Some ''ai-proofread-fix'') (Some []) None (Some ''gpt-4o'') (Some 7)
     \<lparr>next_id = 0, timeouts = [], widgets = [], windows = [7], trace = []\<rparr>
   = (\<lparr>next_id = 0, timeouts = [], widgets = [], windows = [7], trace = []\<rparr>, None)"
  using start_missing_argument_aborts
    [of "Some ''ai-proofread-fix''" "Some []" None "Some 1" "Some ''gpt-4o''" "Some 7"
        "\<lparr>next_id = 0, timeouts = [], widgets = [], windows = [7], trace = []\<rparr>"]
  by simp

end
